theory Spec2Isabelle
  imports Complex_Main
begin

section \<open>JavaScript numbers\<close>

text \<open>
  The calculator computes on JavaScript values of type \<^verbatim>\<open>number\<close>. A division by zero
  does not raise there: it yields \<^verbatim>\<open>Infinity\<close>, \<^verbatim>\<open>-Infinity\<close> or \<^verbatim>\<open>NaN\<close>, every comparison
  with \<^verbatim>\<open>NaN\<close> is false, and zero has a sign that decides the sign of the infinity. The
  model keeps \<^verbatim>\<open>NaN\<close>, the two infinities and the negative zero: \<open>Fin 0\<close> is \<^verbatim>\<open>+0\<close>,
  \<open>NegZero\<close> is \<^verbatim>\<open>-0\<close>, and the other finite values are real numbers. Rounding and
  overflow of finite results (and so underflow to a zero) are not modelled.
\<close>

datatype number = NaN | NInf | NegZero | Fin real | PInf

text \<open>\<^verbatim>\<open>Number.isFinite\<close>; the infinities; the zeros; the sign bit; the value of a finite
  number; the zero and the infinity of a given sign.\<close>

fun isFinite :: "number \<Rightarrow> bool" where
  "isFinite NegZero = True"
| "isFinite (Fin a) = True"
| "isFinite _ = False"

fun isInfinite :: "number \<Rightarrow> bool" where
  "isInfinite NInf = True"
| "isInfinite PInf = True"
| "isInfinite _ = False"

fun isZero :: "number \<Rightarrow> bool" where
  "isZero NegZero = True"
| "isZero (Fin a) = (a = 0)"
| "isZero _ = False"

fun negative :: "number \<Rightarrow> bool" where
  "negative NInf = True"
| "negative NegZero = True"
| "negative (Fin a) = (a < 0)"
| "negative _ = False"

fun real_of :: "number \<Rightarrow> real" where
  "real_of (Fin a) = a"
| "real_of _ = 0"

definition zero_of :: "bool \<Rightarrow> number" where
  "zero_of neg = (if neg then NegZero else Fin 0)"

definition inf_of :: "bool \<Rightarrow> number" where
  "inf_of neg = (if neg then NInf else PInf)"

text \<open>Negation flips the sign, also of a zero.\<close>

fun number_uminus :: "number \<Rightarrow> number" where
  "number_uminus NaN = NaN"
| "number_uminus NInf = PInf"
| "number_uminus NegZero = Fin 0"
| "number_uminus (Fin a) = (if a = 0 then NegZero else Fin (- a))"
| "number_uminus PInf = NInf"

text \<open>A sum is \<^verbatim>\<open>-0\<close> only when both operands are; a sum of finite numbers that cancel
  is \<^verbatim>\<open>+0\<close>.\<close>

definition number_add :: "number \<Rightarrow> number \<Rightarrow> number" where
  "number_add a b =
     (if a = NaN \<or> b = NaN then NaN
      else if isInfinite a \<and> isInfinite b then (if a = b then a else NaN)
      else if isInfinite a then a
      else if isInfinite b then b
      else if a = NegZero \<and> b = NegZero then NegZero
      else Fin (real_of a + real_of b))"

text \<open>The sign of a product and of a quotient is the exclusive or of the signs of the
  operands, also when the result is a zero or an infinity.\<close>

definition number_mul :: "number \<Rightarrow> number \<Rightarrow> number" where
  "number_mul a b =
     (if a = NaN \<or> b = NaN then NaN
      else if (isInfinite a \<and> isZero b) \<or> (isZero a \<and> isInfinite b) then NaN
      else if isInfinite a \<or> isInfinite b then inf_of (negative a \<noteq> negative b)
      else if isZero a \<or> isZero b then zero_of (negative a \<noteq> negative b)
      else Fin (real_of a * real_of b))"

definition number_div :: "number \<Rightarrow> number \<Rightarrow> number" where
  "number_div a b =
     (if a = NaN \<or> b = NaN then NaN
      else if (isInfinite a \<and> isInfinite b) \<or> (isZero a \<and> isZero b) then NaN
      else if isInfinite a \<or> isZero b then inf_of (negative a \<noteq> negative b)
      else if isZero a \<or> isInfinite b then zero_of (negative a \<noteq> negative b)
      else Fin (real_of a / real_of b))"

text \<open>The two zeros are equal and neither is less than the other.\<close>

definition number_less :: "number \<Rightarrow> number \<Rightarrow> bool" where
  "number_less a b =
     (if a = NaN \<or> b = NaN then False
      else if a = NInf then b \<noteq> NInf
      else if b = PInf then a \<noteq> PInf
      else if a = PInf \<or> b = NInf then False
      else real_of a < real_of b)"

text \<open>The operator \<^verbatim>\<open>===\<close> on numbers.\<close>

definition strict_eq :: "number \<Rightarrow> number \<Rightarrow> bool" where
  "strict_eq a b = (a \<noteq> NaN \<and> b \<noteq> NaN \<and> (a = b \<or> (isZero a \<and> isZero b)))"

fun number_abs :: "number \<Rightarrow> number" where
  "number_abs NaN = NaN"
| "number_abs NInf = PInf"
| "number_abs NegZero = Fin 0"
| "number_abs (Fin a) = Fin \<bar>a\<bar>"
| "number_abs PInf = PInf"

text \<open>
  The operators of the source are the operators of the model: \<open>a < b\<close> is JavaScript's
  \<^verbatim>\<open>a < b\<close> (and \<open>a > b\<close> its \<^verbatim>\<open>a > b\<close>), \<open>a \<le> b\<close> its \<^verbatim>\<open>a <= b\<close>. Neither holds when an
  operand is \<^verbatim>\<open>NaN\<close>, so \<open>\<not> a \<le> b\<close> is not \<open>b < a\<close>. The numerals are the positive
  numbers they denote, \<open>0\<close> is \<^verbatim>\<open>+0\<close>.
\<close>

instantiation number :: "{zero, one, plus, minus, uminus, times, inverse, abs, ord}"
begin

definition zero_number :: number where
  "zero_number = Fin 0"

definition one_number :: number where
  "one_number = Fin 1"

definition plus_number :: "number \<Rightarrow> number \<Rightarrow> number" where
  "plus_number = number_add"

definition uminus_number :: "number \<Rightarrow> number" where
  "uminus_number = number_uminus"

definition minus_number :: "number \<Rightarrow> number \<Rightarrow> number" where
  "minus_number a b = number_add a (number_uminus b)"

definition times_number :: "number \<Rightarrow> number \<Rightarrow> number" where
  "times_number = number_mul"

definition divide_number :: "number \<Rightarrow> number \<Rightarrow> number" where
  "divide_number = number_div"

definition inverse_number :: "number \<Rightarrow> number" where
  "inverse_number a = number_div (Fin 1) a"

definition abs_number :: "number \<Rightarrow> number" where
  "abs_number = number_abs"

definition less_number :: "number \<Rightarrow> number \<Rightarrow> bool" where
  "less_number = number_less"

definition less_eq_number :: "number \<Rightarrow> number \<Rightarrow> bool" where
  "less_eq_number a b = (number_less a b \<or> strict_eq a b)"

instance ..

end

instance number :: semigroup_add
proof
  fix a b c :: number
  show "a + b + c = a + (b + c)"
    by (cases a; cases b; cases c) (simp_all add: plus_number_def number_add_def)
qed

instance number :: numeral ..

text \<open>\<^verbatim>\<open>Math.sqrt\<close>, \<^verbatim>\<open>Math.max\<close>, \<^verbatim>\<open>Math.min\<close> (of two arguments) and \<^verbatim>\<open>Math.pow\<close> (with a
  natural exponent). \<^verbatim>\<open>Math.max\<close> and \<^verbatim>\<open>Math.min\<close> return \<^verbatim>\<open>NaN\<close> as soon as an argument is
  \<^verbatim>\<open>NaN\<close>, which HOL's \<open>max\<close> and \<open>min\<close> would not, and they take \<^verbatim>\<open>-0\<close> for smaller than
  \<^verbatim>\<open>+0\<close>; the square root of \<^verbatim>\<open>-0\<close> is \<^verbatim>\<open>-0\<close>.\<close>

fun Math_sqrt :: "number \<Rightarrow> number" where
  "Math_sqrt NaN = NaN"
| "Math_sqrt NInf = NaN"
| "Math_sqrt NegZero = NegZero"
| "Math_sqrt (Fin a) = (if a < 0 then NaN else Fin (sqrt a))"
| "Math_sqrt PInf = PInf"

definition Math_max :: "number \<Rightarrow> number \<Rightarrow> number" where
  "Math_max a b =
     (if a = NaN \<or> b = NaN then NaN
      else if a < b then b
      else if b < a then a
      else if a = NegZero then b else a)"

definition Math_min :: "number \<Rightarrow> number \<Rightarrow> number" where
  "Math_min a b =
     (if a = NaN \<or> b = NaN then NaN
      else if b < a then b
      else if a < b then a
      else if a = NegZero then a else b)"

primrec Math_pow :: "number \<Rightarrow> nat \<Rightarrow> number" where
  "Math_pow x 0 = 1"
| "Math_pow x (Suc n) = x * Math_pow x n"

section \<open>Statistical utility functions\<close>

text \<open>The test \<^verbatim>\<open>visitors === 0\<close> holds for both zeros and not for \<^verbatim>\<open>NaN\<close>.\<close>

definition calculateConversionRate :: "number \<Rightarrow> number \<Rightarrow> number" where
  "calculateConversionRate conversions visitors =
     (if strict_eq visitors 0 then 0 else (conversions / visitors) * 100)"

definition calculateStandardError :: "number \<Rightarrow> number \<Rightarrow> number" where
  "calculateStandardError rate visitors =
     (if strict_eq visitors 0 then 0
      else let proportion = rate / 100
           in Math_sqrt ((proportion * (1 - proportion)) / visitors) * 100)"

definition calculateConfidenceInterval :: "number \<Rightarrow> number \<Rightarrow> number \<times> number" where
  "calculateConfidenceInterval rate visitors =
     (let z = Fin 1.96;
          se = Math_sqrt ((rate / 100 * (1 - rate / 100)) / visitors)
      in (Math_max 0 (rate - (z * se * 100)), Math_min 100 (rate + (z * se * 100))))"

section \<open>Recommendation\<close>

datatype Level = low | medium | high

record Recommendation =
  "text" :: string
  color :: string
  confidence :: Level
  action :: string

definition getRecommendation :: "number \<Rightarrow> number \<Rightarrow> number \<Rightarrow> Recommendation" where
  "getRecommendation improvement sampleSize requiredSample =
     (let sampleConfidence =
            (if sampleSize \<ge> requiredSample then high
             else if sampleSize \<ge> requiredSample * Fin 0.5 then medium else low)
      in if sampleConfidence = low
         then \<lparr>text = ''Need More Data'', color = ''#6B7280'', confidence = low,
               action = ''Continue test to reach required sample size''\<rparr>
         else if improvement > 10
         then \<lparr>text = ''Implement Variant'', color = ''#059669'', confidence = sampleConfidence,
               action = ''Strong positive impact on revenue''\<rparr>
         else if improvement < - 10
         then \<lparr>text = ''Keep Control'', color = ''#DC2626'', confidence = sampleConfidence,
               action = ''Variant shows significant decline''\<rparr>
         else \<lparr>text = ''No Clear Winner'', color = ''#5e62d1'', confidence = sampleConfidence,
               action = ''Differences are not significant enough''\<rparr>)"

section \<open>Data model\<close>

record BusinessMetrics =
  pipelineValue :: number
  closeRate :: number
  monthlyVisitors :: number

record TestVariant =
  name :: string
  visitors :: number
  conversions :: number

text \<open>The state \<^verbatim>\<open>variants: Record<string, TestVariant>\<close> is an object whose keys are
  enumerated in insertion order (none of the keys the component creates is an integer
  index): an association list. \<^verbatim>\<open>variants[key]\<close> is \<open>map_of variants key\<close>, and reading a field
  of the \<^verbatim>\<open>undefined\<close> it yields for a missing key throws a \<^verbatim>\<open>TypeError\<close>.\<close>

type_synonym Variants = "(string \<times> TestVariant) list"

datatype js_error = TypeError

record VariantResult =
  key :: string
  name :: string
  rate :: number
  error :: number
  revenue :: number
  visitors :: number

record RevenueImpact =
  monthly :: number
  annual :: number

record TestResults =
  winner :: string
  improvement :: number
  monthlyRevenue :: number
  riskLevel :: Level
  variants :: "VariantResult list"
  revenueImpact :: RevenueImpact

record ValidationError =
  field :: string
  message :: string

record ValidationResult =
  isValid :: bool
  errors :: "ValidationError list"

section \<open>Validation\<close>

text \<open>The three checks of the business metrics, each pushing its error.\<close>

definition businessErrors :: "BusinessMetrics \<Rightarrow> ValidationError list" where
  "businessErrors businessMetrics =
     (if pipelineValue businessMetrics \<le> 0
      then [\<lparr>field = ''pipelineValue'', message = ''Pipeline value must be greater than 0''\<rparr>]
      else []) @
     (if closeRate businessMetrics \<le> 0 \<or> closeRate businessMetrics > 100
      then [\<lparr>field = ''closeRate'', message = ''Close rate must be between 0 and 100''\<rparr>]
      else []) @
     (if monthlyVisitors businessMetrics \<le> 0
      then [\<lparr>field = ''monthlyVisitors'', message = ''Monthly visitors must be greater than 0''\<rparr>]
      else [])"

text \<open>The body of the callback of \<^verbatim>\<open>['control', 'variant'].forEach\<close>: the errors it pushes
  for one key.\<close>

definition variantErrors :: "string \<Rightarrow> TestVariant \<Rightarrow> ValidationError list" where
  "variantErrors k variant =
     (if TestVariant.visitors variant \<le> 0
      then [\<lparr>field = k @ ''Visitors'',
             message = TestVariant.name variant @ '' visitors must be greater than 0''\<rparr>]
      else []) @
     (if conversions variant < 0
      then [\<lparr>field = k @ ''Conversions'',
             message = TestVariant.name variant @ '' conversions cannot be negative''\<rparr>]
      else []) @
     (if conversions variant > TestVariant.visitors variant
      then [\<lparr>field = k @ ''Conversions'',
             message = TestVariant.name variant @ '' conversions cannot exceed visitors''\<rparr>]
      else [])"

fun forEachKey :: "Variants \<Rightarrow> string list \<Rightarrow> ValidationError list \<Rightarrow> js_error + ValidationError list" where
  "forEachKey vs [] errs = Inr errs"
| "forEachKey vs (k # ks) errs =
     (case map_of vs k of
        None \<Rightarrow> Inl TypeError
      | Some variant \<Rightarrow> forEachKey vs ks (errs @ variantErrors k variant))"

definition validateInputs :: "BusinessMetrics \<Rightarrow> Variants \<Rightarrow> js_error + ValidationResult" where
  "validateInputs businessMetrics vs =
     (case forEachKey vs [''control'', ''variant''] (businessErrors businessMetrics) of
        Inl e \<Rightarrow> Inl e
      | Inr errs \<Rightarrow> Inr \<lparr>isValid = (length errs = 0), errors = errs\<rparr>)"

section \<open>Results\<close>

text \<open>The object literal built for a variant; the source writes it twice, once for the
  default pair and once for the additional variants.\<close>

definition variantResult :: "BusinessMetrics \<Rightarrow> string \<Rightarrow> TestVariant \<Rightarrow> VariantResult" where
  "variantResult businessMetrics k variant =
     (let rate = calculateConversionRate (conversions variant) (TestVariant.visitors variant)
      in \<lparr>key = k,
          name = TestVariant.name variant,
          rate = rate,
          error = calculateStandardError rate (TestVariant.visitors variant),
          revenue = monthlyVisitors businessMetrics * (rate / 100) * pipelineValue businessMetrics
                      * (closeRate businessMetrics / 100),
          visitors = TestVariant.visitors variant\<rparr>)"

definition additionalVariants :: "BusinessMetrics \<Rightarrow> Variants \<Rightarrow> VariantResult list" where
  "additionalVariants businessMetrics vs =
     map the
       (filter (\<lambda>result. result \<noteq> None)
         (map (\<lambda>(k, variant).
                 if TestVariant.visitors variant \<le> 0 \<or> conversions variant < 0
                    \<or> conversions variant > TestVariant.visitors variant
                 then None
                 else Some (variantResult businessMetrics k variant))
            (filter (\<lambda>(k, variant). k \<notin> set [''control'', ''variant'']) vs)))"

text \<open>\<^verbatim>\<open>Array.prototype.reduce\<close> without an initial value: it throws on an empty array.\<close>

fun reduce :: "('a \<Rightarrow> 'a \<Rightarrow> 'a) \<Rightarrow> 'a list \<Rightarrow> js_error + 'a" where
  "reduce f [] = Inl TypeError"
| "reduce f (x # xs) = Inr (foldl f x xs)"

text \<open>The callback of the reduction, and the reduction over the entries other than the
  control.\<close>

definition better :: "VariantResult \<Rightarrow> VariantResult \<Rightarrow> VariantResult" where
  "better best current = (if rate current > rate best then current else best)"

definition bestVariantOf :: "VariantResult list \<Rightarrow> js_error + VariantResult" where
  "bestVariantOf variantResults =
     reduce better (filter (\<lambda>v. key v \<noteq> ''control'') variantResults)"

definition zScore :: "VariantResult \<Rightarrow> VariantResult \<Rightarrow> number" where
  "zScore variant controlResult =
     \<bar>rate variant - rate controlResult\<bar> /
       Math_sqrt (Math_pow (error variant) 2 + Math_pow (error controlResult) 2)"

definition significantResults :: "VariantResult list \<Rightarrow> VariantResult \<Rightarrow> bool list" where
  "significantResults variantResults controlResult =
     map (\<lambda>variant. if key variant = ''control'' then True
                     else zScore variant controlResult > Fin 1.96)
       variantResults"

text \<open>The end of the \<^verbatim>\<open>try\<close> block, from \<^verbatim>\<open>const improvement\<close> to the object it returns, as a
  function of the three values it reads.\<close>

definition resultsFrom :: "VariantResult list \<Rightarrow> VariantResult \<Rightarrow> VariantResult \<Rightarrow> TestResults" where
  "resultsFrom variantResults controlResult bestVariant =
     (let improvement = ((rate bestVariant - rate controlResult) / rate controlResult) * 100;
          monthlyImpact = revenue bestVariant - revenue controlResult
      in \<lparr>winner = (if rate bestVariant > rate controlResult
                      then VariantResult.name bestVariant
                      else VariantResult.name controlResult),
          improvement = improvement,
          monthlyRevenue = revenue bestVariant,
          riskLevel = (if list_all (\<lambda>s. s) (significantResults variantResults controlResult)
                       then (if \<bar>improvement\<bar> > 20 then low else medium)
                       else high),
          variants = variantResults,
          revenueImpact = \<lparr>monthly = monthlyImpact, annual = monthlyImpact * 12\<rparr>\<rparr>)"

text \<open>The body of the \<^verbatim>\<open>try\<close> block of \<^verbatim>\<open>calculateResults\<close>; \<open>Inl\<close> is an exception thrown
  in it: by a field of a missing variant, by the field of the \<^verbatim>\<open>undefined\<close> that \<^verbatim>\<open>find\<close>
  returns when nothing matches, or by \<^verbatim>\<open>reduce\<close>.\<close>

definition tryResults :: "BusinessMetrics \<Rightarrow> Variants \<Rightarrow> js_error + TestResults" where
  "tryResults businessMetrics vs =
     (case map_of vs ''control'' of
        None \<Rightarrow> Inl TypeError
      | Some c \<Rightarrow>
     (case map_of vs ''variant'' of
        None \<Rightarrow> Inl TypeError
      | Some v \<Rightarrow>
     (let variantResults =
            [variantResult businessMetrics ''control'' c,
             variantResult businessMetrics ''variant'' v]
            @ additionalVariants businessMetrics vs
      in
     (case find (\<lambda>v. key v = ''control'') variantResults of
        None \<Rightarrow> Inl TypeError
      | Some controlResult \<Rightarrow>
     (case bestVariantOf variantResults of
        Inl e \<Rightarrow> Inl e
      | Inr bestVariant \<Rightarrow> Inr (resultsFrom variantResults controlResult bestVariant))))))"

text \<open>\<open>Inr None\<close> is the \<^verbatim>\<open>null\<close> the function returns, also from its \<^verbatim>\<open>catch\<close>; an exception
  of \<^verbatim>\<open>validateInputs\<close> is thrown outside the \<^verbatim>\<open>try\<close> block and escapes.\<close>

definition calculateResults :: "BusinessMetrics \<Rightarrow> Variants \<Rightarrow> js_error + TestResults option" where
  "calculateResults businessMetrics vs =
     (case validateInputs businessMetrics vs of
        Inl e \<Rightarrow> Inl e
      | Inr validation \<Rightarrow>
          if \<not> isValid validation then Inr None
          else (case tryResults businessMetrics vs of
                  Inl e \<Rightarrow> Inr None
                | Inr results \<Rightarrow> Inr (Some results)))"

section \<open>Finite inputs and a test scenario\<close>

text \<open>The fields of the form are \<^verbatim>\<open><Input type="number">\<close> elements read through
  \<^verbatim>\<open>Number(e.target.value)\<close>, which hold finite numbers.\<close>

definition finiteInputs :: "Variants \<Rightarrow> bool" where
  "finiteInputs vs =
     list_all (\<lambda>(k, variant). isFinite (TestVariant.visitors variant) \<and> isFinite (conversions variant)) vs"

text \<open>The scenario of the specification: a control with 100 conversions and a variant with
  150 conversions out of 1000 visitors each.\<close>

definition scenarioMetrics :: BusinessMetrics where
  "scenarioMetrics = \<lparr>pipelineValue = 1000, closeRate = 20, monthlyVisitors = 10000\<rparr>"

definition scenarioVariants :: Variants where
  "scenarioVariants =
     [(''control'', \<lparr>TestVariant.name = ''Control'', TestVariant.visitors = 1000, conversions = 100\<rparr>),
      (''variant'', \<lparr>TestVariant.name = ''Variant'', TestVariant.visitors = 1000, conversions = 150\<rparr>)]"

text \<open>The scenario after \<^verbatim>\<open>Add Test Pair\<close>: the added control is left at its initial zeros,
  the added variant has the same rate as the default variant.\<close>

definition pairVariants :: Variants where
  "pairVariants =
     scenarioVariants @
     [(''control1'', \<lparr>TestVariant.name = ''Control 1'', TestVariant.visitors = 0, conversions = 0\<rparr>),
      (''variant1'', \<lparr>TestVariant.name = ''Variant 1'', TestVariant.visitors = 2000, conversions = 300\<rparr>)]"

text \<open>A control without conversions; a test without any conversion; two equal rates.\<close>

definition zeroControlVariants :: Variants where
  "zeroControlVariants =
     [(''control'', \<lparr>TestVariant.name = ''Control'', TestVariant.visitors = 1000, conversions = 0\<rparr>),
      (''variant'', \<lparr>TestVariant.name = ''Variant'', TestVariant.visitors = 1000, conversions = 150\<rparr>)]"

text \<open>The same with the conversions of the control entered as \<^verbatim>\<open>-0\<close>.\<close>

definition negZeroControlVariants :: Variants where
  "negZeroControlVariants =
     [(''control'', \<lparr>TestVariant.name = ''Control'', TestVariant.visitors = 1000, conversions = NegZero\<rparr>),
      (''variant'', \<lparr>TestVariant.name = ''Variant'', TestVariant.visitors = 1000, conversions = 150\<rparr>)]"

definition zeroVariants :: Variants where
  "zeroVariants =
     [(''control'', \<lparr>TestVariant.name = ''Control'', TestVariant.visitors = 1000, conversions = 0\<rparr>),
      (''variant'', \<lparr>TestVariant.name = ''Variant'', TestVariant.visitors = 1000, conversions = 0\<rparr>)]"

definition equalVariants :: Variants where
  "equalVariants =
     [(''control'', \<lparr>TestVariant.name = ''Control'', TestVariant.visitors = 1000, conversions = 100\<rparr>),
      (''variant'', \<lparr>TestVariant.name = ''Variant'', TestVariant.visitors = 2000, conversions = 200\<rparr>)]"

section \<open>Arithmetic on finite numbers\<close>

lemmas number_ops =
  plus_number_def minus_number_def times_number_def divide_number_def abs_number_def
  less_number_def less_eq_number_def uminus_number_def
  number_add_def number_mul_def number_div_def number_less_def strict_eq_def
  zero_of_def inf_of_def

lemma numeral_number [simp]: "(numeral k :: number) = Fin (numeral k)"
proof (induction k)
  case One
  show ?case by (simp add: one_number_def)
next
  case (Bit0 k)
  have "(numeral (num.Bit0 k) :: number) = numeral k + numeral k"
    by (rule numeral_Bit0)
  also have "\<dots> = number_add (Fin (numeral k)) (Fin (numeral k))"
    by (simp only: Bit0.IH plus_number_def)
  also have "\<dots> = Fin (numeral (num.Bit0 k))"
    by (simp add: numeral_Bit0 number_add_def)
  finally show ?case .
next
  case (Bit1 k)
  have "(numeral (num.Bit1 k) :: number) = numeral k + numeral k + 1"
    by (rule numeral_Bit1)
  also have "\<dots> = number_add (number_add (Fin (numeral k)) (Fin (numeral k))) (Fin 1)"
    by (simp only: Bit1.IH plus_number_def one_number_def)
  also have "\<dots> = Fin (numeral (num.Bit1 k))"
    by (simp add: numeral_Bit1 number_add_def)
  finally show ?case .
qed

lemma zero_number [simp]: "(0 :: number) = Fin 0"
  by (simp add: zero_number_def)

lemma one_number [simp]: "(1 :: number) = Fin 1"
  by (simp add: one_number_def)

lemma Fin_plus [simp]: "Fin a + Fin b = Fin (a + b)"
  by (simp add: number_ops)

lemma Fin_minus [simp]: "Fin a - Fin b = Fin (a - b)"
  by (simp add: number_ops)

lemma Fin_times_if:
  "Fin a * Fin b = (if (a = 0 \<or> b = 0) \<and> (a < 0 \<or> b < 0) then NegZero else Fin (a * b))"
  by (auto simp add: number_ops)

lemma Fin_times [simp]: "0 \<le> a \<Longrightarrow> 0 \<le> b \<Longrightarrow> Fin a * Fin b = Fin (a * b)"
  by (auto simp add: Fin_times_if)

lemma Fin_divide_if:
  "Fin a / Fin b =
     (if b = 0 then (if a = 0 then NaN else if 0 < a then PInf else NInf)
      else if a = 0 \<and> b < 0 then NegZero else Fin (a / b))"
  by (auto simp add: number_ops)

lemma Fin_divide [simp]: "0 < b \<Longrightarrow> Fin a / Fin b = Fin (a / b)"
  by (simp add: Fin_divide_if)

lemma Fin_divide_zero [simp]:
  "Fin a / Fin 0 = (if a = 0 then NaN else if 0 < a then PInf else NInf)"
  by (simp add: Fin_divide_if)

lemma NegZero_arith [simp]:
  "NegZero + Fin a = Fin a" "Fin a + NegZero = Fin a" "NegZero + NegZero = NegZero"
  "Fin a - NegZero = Fin a" "NegZero - NegZero = Fin 0"
  "0 < a \<Longrightarrow> NegZero * Fin a = NegZero" "0 < a \<Longrightarrow> Fin a * NegZero = NegZero"
  "0 < a \<Longrightarrow> NegZero / Fin a = NegZero"
  "\<bar>NegZero\<bar> = Fin 0"
  by (simp_all add: number_ops)

lemma NaN_arith [simp]:
  "NaN + x = NaN" "x + NaN = NaN" "NaN - x = NaN" "x - NaN = NaN"
  "NaN * x = NaN" "x * NaN = NaN" "NaN / x = NaN" "x / NaN = NaN"
  "\<not> NaN < x" "\<not> x < NaN" "\<not> NaN \<le> x" "\<not> x \<le> NaN"
  by (cases x; simp add: number_ops)+

lemma NegZero_less [simp]:
  "NegZero < Fin a \<longleftrightarrow> 0 < a" "Fin a < NegZero \<longleftrightarrow> a < 0" "\<not> NegZero < NegZero"
  "NegZero \<le> Fin a \<longleftrightarrow> 0 \<le> a" "Fin a \<le> NegZero \<longleftrightarrow> a \<le> 0" "NegZero \<le> NegZero"
  by (auto simp add: number_ops)

lemma Fin_abs [simp]: "\<bar>Fin a\<bar> = Fin \<bar>a\<bar>"
  by (simp add: abs_number_def)

lemma Fin_less [simp]: "Fin a < Fin b \<longleftrightarrow> a < b"
  by (simp add: number_ops)

lemma Fin_less_eq [simp]: "Fin a \<le> Fin b \<longleftrightarrow> a \<le> b"
  by (auto simp add: number_ops)

lemma strict_eq_Fin [simp]: "strict_eq (Fin a) (Fin b) \<longleftrightarrow> a = b"
  by (auto simp add: number_ops)

lemma strict_eq_zero [simp]: "strict_eq x (Fin 0) \<longleftrightarrow> isZero x"
  by (cases x) (auto simp add: number_ops)

text \<open>A finite number is a zero of either sign or a real number; the comparisons of finite
  numbers are those of their values.\<close>

lemma isFinite_iff: "isFinite a \<longleftrightarrow> a = NegZero \<or> (\<exists>r. a = Fin r)"
  by (cases a) simp_all

lemma less_val: "isFinite a \<Longrightarrow> isFinite b \<Longrightarrow> a < b \<longleftrightarrow> real_of a < real_of b"
  by (cases a; cases b) (simp_all add: number_ops)

lemma less_eq_val: "isFinite a \<Longrightarrow> isFinite b \<Longrightarrow> a \<le> b \<longleftrightarrow> real_of a \<le> real_of b"
  by (cases a; cases b) (auto simp add: number_ops)

lemma number_not_le: "a \<noteq> NaN \<Longrightarrow> b \<noteq> NaN \<Longrightarrow> (\<not> a \<le> b) = (b < a)"
  by (cases a; cases b) (auto simp add: number_ops)

lemma number_not_less: "a \<noteq> NaN \<Longrightarrow> b \<noteq> NaN \<Longrightarrow> (\<not> a < b) = (b \<le> a)"
  by (cases a; cases b) (auto simp add: number_ops)

lemma number_less_imp_le: "(a :: number) < b \<Longrightarrow> a \<le> b"
  by (simp add: less_eq_number_def less_number_def)

lemma number_le_refl: "isFinite a \<Longrightarrow> a \<le> a"
  by (cases a) (simp_all add: number_ops)

lemma number_less_imp_not_le: "(a :: number) < b \<Longrightarrow> \<not> b \<le> a"
  by (cases a; cases b) (auto simp add: number_ops)

lemma number_le_imp_not_less: "(a :: number) \<le> b \<Longrightarrow> \<not> b < a"
  by (cases a; cases b) (auto simp add: number_ops)

lemma Math_sqrt_Fin: "0 \<le> a \<Longrightarrow> Math_sqrt (Fin a) = Fin (sqrt a)"
  by simp

section \<open>Conversion rate\<close>

lemma calculateConversionRate_Fin:
  "0 < v \<Longrightarrow> 0 \<le> c \<Longrightarrow> calculateConversionRate (Fin c) (Fin v) = Fin (c / v * 100)"
  by (simp add: calculateConversionRate_def)

text \<open>
  Claim C5, as the code has it. \<^verbatim>\<open>calculateConversionRate\<close> does not clamp: the rate lies
  between 0 and 100 when the visitors are positive and the conversions lie between 0 and
  the visitors, and with zero visitors the rate is 0 whatever the conversions are (also
  \<^verbatim>\<open>NaN\<close>). The zero may be \<^verbatim>\<open>-0\<close>, as conversions and as visitors.
\<close>

theorem conversion_rate_bounds:
  "(0 < v \<and> 0 \<le> c \<and> c \<le> v \<longrightarrow>
      0 \<le> calculateConversionRate (Fin c) (Fin v) \<and> calculateConversionRate (Fin c) (Fin v) \<le> 100)
   \<and> calculateConversionRate x 0 = 0
   \<and> (0 < v \<longrightarrow>
      0 \<le> calculateConversionRate NegZero (Fin v) \<and> calculateConversionRate NegZero (Fin v) \<le> 100)
   \<and> calculateConversionRate x NegZero = 0"
  by (simp add: calculateConversionRate_def divide_le_eq strict_eq_def)

theorem conversion_rate_bounds_witness:
  "(0::real) < 4 \<and> (0::real) \<le> 1 \<and> (1::real) \<le> 4
   \<and> 0 \<le> calculateConversionRate (Fin 1) (Fin 4) \<and> calculateConversionRate (Fin 1) (Fin 4) \<le> 100
   \<and> calculateConversionRate NaN 0 = 0
   \<and> 0 \<le> calculateConversionRate NegZero (Fin 4) \<and> calculateConversionRate NegZero (Fin 4) \<le> 100
   \<and> calculateConversionRate NaN NegZero = 0"
  using conversion_rate_bounds [of 4 1 NaN] by simp

text \<open>
  Claim C5 as stated fails: with 1 visitor and 2 conversions, both non-negative and the
  visitors positive, the rate is 200.
\<close>

theorem conversion_rate_above_100:
  "(0::number) < Fin 1 \<and> (0::number) \<le> Fin 2 \<and> calculateConversionRate (Fin 2) (Fin 1) = Fin 200
   \<and> \<not> calculateConversionRate (Fin 2) (Fin 1) \<le> 100"
  by (simp add: calculateConversionRate_def)

section \<open>Confidence interval\<close>

text \<open>On a rate between 0 and 100 the standard error under the root is not negative.\<close>

lemma confidence_interval_Fin:
  assumes "0 \<le> r" "r \<le> 100" "0 \<le> s"
    and "Math_sqrt ((Fin r / 100 * (1 - Fin r / 100)) / n) = Fin s"
  shows "\<exists>lower upper. calculateConfidenceInterval (Fin r) n = (Fin lower, Fin upper)
           \<and> 0 \<le> lower \<and> lower \<le> r \<and> r \<le> upper \<and> upper \<le> 100"
  unfolding calculateConfidenceInterval_def Let_def assms(4)
  using assms(1-3) by (simp add: Math_max_def Math_min_def)

lemma confidence_interval_NegZero:
  assumes "0 < n"
  shows "calculateConfidenceInterval NegZero n = (Fin 0, NegZero)"
  using assms
  by (cases n)
     (simp_all add: calculateConfidenceInterval_def Math_max_def Math_min_def Let_def number_ops)

text \<open>
  Claim C2, as the code has it. For a rate between 0 and 100 and positive visitors
  \<^verbatim>\<open>calculateConfidenceInterval\<close> returns two numbers with
  \<open>0 \<le> lower \<le> rate \<le> upper \<le> 100\<close>, neither of them \<^verbatim>\<open>NaN\<close>. The comparisons are
  those of JavaScript, which hold of no \<^verbatim>\<open>NaN\<close>. The function has no test of
  \<^verbatim>\<open>visitors === 0\<close>: its callers pass the visitors of the entries of a result, which are
  positive.
\<close>

theorem confidence_interval_positive_visitors:
  assumes "0 \<le> x" and "x \<le> 100" and "0 < n"
  shows "\<exists>lower upper. calculateConfidenceInterval x n = (lower, upper)
           \<and> 0 \<le> lower \<and> lower \<le> x \<and> x \<le> upper \<and> upper \<le> 100"
proof (cases x)
  case NegZero
  show ?thesis
    unfolding NegZero confidence_interval_NegZero [OF assms(3)]
    by (simp add: number_ops)
next
  case (Fin r)
  with assms(1,2) have r: "0 \<le> r" "r \<le> 100"
    by simp_all
  then have q: "0 \<le> r / 100 * (1 - r / 100)"
    by simp
  have "\<exists>s. 0 \<le> s \<and> Math_sqrt ((Fin r / 100 * (1 - Fin r / 100)) / n) = Fin s"
  proof (cases n)
    case (Fin v)
    with assms(3) have "0 < v"
      by simp
    then have "(Fin r / 100 * (1 - Fin r / 100)) / Fin v = Fin (r / 100 * (1 - r / 100) / v)"
      "0 \<le> r / 100 * (1 - r / 100) / v"
      using r by simp_all
    then show ?thesis
      unfolding Fin by (intro exI [of _ "sqrt (r / 100 * (1 - r / 100) / v)"]) simp
  next
    case PInf
    have "Fin r / 100 * (1 - Fin r / 100) = Fin (r / 100 * (1 - r / 100))"
      using r by simp
    then have "(Fin r / 100 * (1 - Fin r / 100)) / PInf = Fin 0"
      using q by (simp add: number_ops)
    then show ?thesis
      unfolding PInf by (intro exI [of _ 0]) simp
  qed (use assms(3) in \<open>simp_all add: number_ops\<close>)
  then obtain s where "0 \<le> s" "Math_sqrt ((Fin r / 100 * (1 - Fin r / 100)) / n) = Fin s"
    by blast
  from confidence_interval_Fin [OF r this] show ?thesis
    unfolding Fin by auto
qed (use assms(1,2) in \<open>simp_all add: number_ops\<close>)

theorem confidence_interval_positive_visitors_witness:
  "(0::number) \<le> 10 \<and> (10::number) \<le> 100 \<and> (0::number) < 1000
   \<and> (\<exists>lower upper. calculateConfidenceInterval 10 1000 = (lower, upper)
           \<and> 0 \<le> lower \<and> lower \<le> 10 \<and> 10 \<le> upper \<and> upper \<le> 100)"
proof -
  have h: "(0::number) \<le> 10" "(10::number) \<le> 100" "(0::number) < 1000"
    by simp_all
  from confidence_interval_positive_visitors [OF h] h show ?thesis
    by (intro conjI)
qed

text \<open>
  Claim C2 as stated fails at zero visitors: with the rate 0 the function divides 0 by 0
  and both bounds are \<^verbatim>\<open>NaN\<close>.
\<close>

theorem confidence_interval_zero_visitors:
  "calculateConfidenceInterval 0 0 = (NaN, NaN)"
  by (simp add: calculateConfidenceInterval_def Math_max_def Math_min_def number_ops)

text \<open>The same at rate 100; at a rate strictly between, the division by zero yields
  \<^verbatim>\<open>Infinity\<close> and the clamps give the whole range.\<close>

lemma confidence_interval_100_zero_visitors:
  "calculateConfidenceInterval 100 0 = (NaN, NaN)"
  by (simp add: calculateConfidenceInterval_def Math_max_def Math_min_def number_ops)

lemma confidence_interval_zero_visitors_inner:
  assumes "0 < r" "r < 100"
  shows "calculateConfidenceInterval (Fin r) 0 = (0, 100)"
proof -
  define q where "q = r / 100 * (1 - r / 100)"
  have "0 < q"
    using assms by (simp add: q_def)
  moreover have "Fin r / 100 * (1 - Fin r / 100) = Fin q"
    using assms by (simp add: q_def)
  ultimately have "Math_sqrt ((Fin r / 100 * (1 - Fin r / 100)) / 0) = PInf"
    by simp
  then show ?thesis
    unfolding calculateConfidenceInterval_def Let_def
    by (simp add: Math_max_def Math_min_def number_ops)
qed

section \<open>Recommendation\<close>

text \<open>
  Claim C3, as the code has it. \<^verbatim>\<open>getRecommendation\<close> returns \<^verbatim>\<open>Need More Data\<close> only for
  the sample confidence \<^verbatim>\<open>low\<close>; with at least half of the required sample, but less than
  all of it, and an improvement above 10 the label is \<^verbatim>\<open>Implement Variant\<close> and the
  confidence \<^verbatim>\<open>medium\<close>.
\<close>

theorem recommendation_medium_sample:
  "requiredSample * Fin 0.5 \<le> sampleSize \<Longrightarrow> sampleSize < requiredSample \<Longrightarrow> imp > 10 \<Longrightarrow>
     text (getRecommendation imp sampleSize requiredSample) = ''Implement Variant''
     \<and> confidence (getRecommendation imp sampleSize requiredSample) = medium"
  by (simp add: getRecommendation_def number_less_imp_not_le)

theorem recommendation_medium_sample_witness:
  "Fin 10000 * Fin 0.5 \<le> Fin 6000 \<and> Fin 6000 < Fin 10000 \<and> Fin 15 > 10
   \<and> text (getRecommendation (Fin 15) (Fin 6000) (Fin 10000)) = ''Implement Variant''
   \<and> confidence (getRecommendation (Fin 15) (Fin 6000) (Fin 10000)) = medium"
  using recommendation_medium_sample [of "Fin 10000" "Fin 6000" "Fin 15"] by simp

lemma recommendation_full_sample:
  "text (getRecommendation 15 12000 10000) = ''Implement Variant''
   \<and> confidence (getRecommendation 15 12000 10000) = high"
  by (simp add: getRecommendation_def)

text \<open>
  Claim C3 as stated fails: with an improvement of 15 and 6000 of 10000 required visitors
  the label is not \<^verbatim>\<open>No Clear Winner\<close>.
\<close>

theorem recommendation_not_no_clear_winner:
  "Fin 10000 * Fin 0.5 \<le> Fin 6000 \<and> Fin 6000 < Fin 10000 \<and> Fin 15 > 10
   \<and> text (getRecommendation (Fin 15) (Fin 6000) (Fin 10000)) \<noteq> ''No Clear Winner''"
  by (simp add: getRecommendation_def)

section \<open>Validation\<close>

lemma validateInputs_present:
  assumes "map_of vs ''control'' = Some c" "map_of vs ''variant'' = Some v"
  shows "validateInputs bm vs =
           Inr \<lparr>isValid = (businessErrors bm @ variantErrors ''control'' c @ variantErrors ''variant'' v = []),
                errors = businessErrors bm @ variantErrors ''control'' c @ variantErrors ''variant'' v\<rparr>"
  using assms by (simp add: validateInputs_def)

lemma validateInputs_InrD:
  assumes "validateInputs bm vs = Inr val"
  shows "\<exists>c v. map_of vs ''control'' = Some c \<and> map_of vs ''variant'' = Some v
           \<and> errors val = businessErrors bm @ variantErrors ''control'' c @ variantErrors ''variant'' v
           \<and> isValid val = (errors val = [])"
  using assms by (auto simp add: validateInputs_def split: option.splits)

lemma businessErrors_Nil:
  "businessErrors bm = [] \<longleftrightarrow>
     \<not> pipelineValue bm \<le> 0 \<and> \<not> (closeRate bm \<le> 0 \<or> closeRate bm > 100) \<and> \<not> monthlyVisitors bm \<le> 0"
  by (simp add: businessErrors_def)

lemma variantErrors_Nil:
  "variantErrors k v = [] \<longleftrightarrow>
     \<not> TestVariant.visitors v \<le> 0 \<and> \<not> conversions v < 0 \<and> \<not> conversions v > TestVariant.visitors v"
  by (simp add: variantErrors_def)

text \<open>
  Claim C7. On fields that are numbers (none is \<^verbatim>\<open>NaN\<close>), \<^verbatim>\<open>validateInputs\<close> returns and its
  error list is empty exactly when the pipeline value is positive, the close rate is in
  \<open>(0, 100]\<close>, the monthly visitors are positive, and the control and the variant each have
  positive visitors and conversions between 0 and the visitors; with control visitors 0
  an error has the field \<^verbatim>\<open>controlVisitors\<close>, for either zero.
\<close>

theorem validateInputs_empty_iff:
  assumes "map_of vs ''control'' = Some c" and "map_of vs ''variant'' = Some v"
    and "NaN \<notin> {pipelineValue bm, closeRate bm, monthlyVisitors bm,
                 TestVariant.visitors c, conversions c, TestVariant.visitors v, conversions v}"
  shows "\<exists>res. validateInputs bm vs = Inr res
           \<and> (errors res = [] \<longleftrightarrow>
                pipelineValue bm > 0 \<and> 0 < closeRate bm \<and> closeRate bm \<le> 100 \<and> monthlyVisitors bm > 0
                \<and> TestVariant.visitors c > 0 \<and> conversions c \<ge> 0 \<and> conversions c \<le> TestVariant.visitors c
                \<and> TestVariant.visitors v > 0 \<and> conversions v \<ge> 0 \<and> conversions v \<le> TestVariant.visitors v)
           \<and> (TestVariant.visitors c = 0 \<longrightarrow> (\<exists>e \<in> set (errors res). field e = ''controlVisitors''))
           \<and> (TestVariant.visitors c = NegZero \<longrightarrow> (\<exists>e \<in> set (errors res). field e = ''controlVisitors''))"
proof -
  have nn: "pipelineValue bm \<noteq> NaN" "closeRate bm \<noteq> NaN" "monthlyVisitors bm \<noteq> NaN"
    "TestVariant.visitors c \<noteq> NaN" "conversions c \<noteq> NaN"
    "TestVariant.visitors v \<noteq> NaN" "conversions v \<noteq> NaN"
    using assms(3) by auto
  have n: "(0::number) \<noteq> NaN" "(100::number) \<noteq> NaN"
    by simp_all
  note flip = number_not_le number_not_less
  have bm: "businessErrors bm = [] \<longleftrightarrow>
      pipelineValue bm > 0 \<and> 0 < closeRate bm \<and> closeRate bm \<le> 100 \<and> monthlyVisitors bm > 0"
    unfolding businessErrors_Nil de_Morgan_disj
    by (simp only: flip [OF nn(1) n(1)] flip [OF nn(2) n(1)] flip [OF n(2) nn(2)] flip [OF nn(3) n(1)]
        conj_assoc)
  have ve: "variantErrors k x = [] \<longleftrightarrow>
      TestVariant.visitors x > 0 \<and> conversions x \<ge> 0 \<and> conversions x \<le> TestVariant.visitors x"
    if "TestVariant.visitors x \<noteq> NaN" "conversions x \<noteq> NaN" for k x
    unfolding variantErrors_Nil
    by (simp only: flip [OF that(1) n(1)] flip [OF that(2) n(1)] flip [OF that(1) that(2)])
  have v0: "\<exists>e \<in> set (businessErrors bm @ variantErrors ''control'' c @ variantErrors ''variant'' v).
              field e = ''controlVisitors''"
    if "TestVariant.visitors c = 0 \<or> TestVariant.visitors c = NegZero"
    using that by (auto simp add: variantErrors_def)
  show ?thesis
    unfolding validateInputs_present [OF assms(1,2)]
    using bm ve [OF nn(4,5)] ve [OF nn(6,7)] v0
    by (simp del: zero_number numeral_number)
qed

lemma scenario_control:
  "map_of scenarioVariants ''control'' =
     Some \<lparr>TestVariant.name = ''Control'', TestVariant.visitors = 1000, conversions = 100\<rparr>"
  by (simp add: scenarioVariants_def)

lemma scenario_variant:
  "map_of scenarioVariants ''variant'' =
     Some \<lparr>TestVariant.name = ''Variant'', TestVariant.visitors = 1000, conversions = 150\<rparr>"
  by (simp add: scenarioVariants_def)

theorem validateInputs_empty_iff_witness:
  "map_of scenarioVariants ''control'' =
     Some \<lparr>TestVariant.name = ''Control'', TestVariant.visitors = 1000, conversions = 100\<rparr>
   \<and> map_of scenarioVariants ''variant'' =
     Some \<lparr>TestVariant.name = ''Variant'', TestVariant.visitors = 1000, conversions = 150\<rparr>
   \<and> (\<exists>res. validateInputs scenarioMetrics scenarioVariants = Inr res \<and> errors res = [])"
  using validateInputs_empty_iff [OF scenario_control scenario_variant, of scenarioMetrics]
  by (simp add: scenario_control scenario_variant scenarioMetrics_def)

lemma scenario_valid:
  "validateInputs scenarioMetrics scenarioVariants = Inr \<lparr>isValid = True, errors = []\<rparr>"
  by (simp add: validateInputs_present [OF scenario_control scenario_variant]
      businessErrors_def variantErrors_def scenarioMetrics_def)

text \<open>The hypothesis on \<^verbatim>\<open>NaN\<close> is needed: every comparison with \<^verbatim>\<open>NaN\<close> is false, so a field
  that is \<^verbatim>\<open>NaN\<close> passes each of the checks.\<close>

lemma validateInputs_NaN:
  "validateInputs (scenarioMetrics\<lparr>pipelineValue := NaN\<rparr>) scenarioVariants
     = Inr \<lparr>isValid = True, errors = []\<rparr>"
  by (simp add: validateInputs_present [OF scenario_control scenario_variant]
      businessErrors_def variantErrors_def scenarioMetrics_def number_ops)

section \<open>Results of a validated input\<close>

lemma variantResult_sel [simp]:
  "key (variantResult bm k v) = k"
  "VariantResult.name (variantResult bm k v) = TestVariant.name v"
  "rate (variantResult bm k v) = calculateConversionRate (conversions v) (TestVariant.visitors v)"
  "error (variantResult bm k v) =
     calculateStandardError (calculateConversionRate (conversions v) (TestVariant.visitors v))
       (TestVariant.visitors v)"
  "VariantResult.visitors (variantResult bm k v) = TestVariant.visitors v"
  by (simp_all add: variantResult_def Let_def)

lemma resultsFrom_sel [simp]:
  "winner (resultsFrom rs c b) = (if rate b > rate c then VariantResult.name b else VariantResult.name c)"
  "improvement (resultsFrom rs c b) = ((rate b - rate c) / rate c) * 100"
  "monthlyRevenue (resultsFrom rs c b) = revenue b"
  "riskLevel (resultsFrom rs c b) =
     (if list_all (\<lambda>s. s) (significantResults rs c)
      then (if \<bar>((rate b - rate c) / rate c) * 100\<bar> > 20 then low else medium)
      else high)"
  "variants (resultsFrom rs c b) = rs"
  by (simp_all add: resultsFrom_def Let_def)

text \<open>The additional variants are the entries under other keys that pass the three
  checks, in the order of the object.\<close>

lemma additionalVariants_eq:
  "additionalVariants bm vs =
     map (\<lambda>(k, variant). variantResult bm k variant)
       (filter (\<lambda>(k, variant). k \<notin> {''control'', ''variant''}
                  \<and> \<not> (TestVariant.visitors variant \<le> 0 \<or> conversions variant < 0
                        \<or> conversions variant > TestVariant.visitors variant)) vs)"
  unfolding additionalVariants_def
  by (induction vs) auto

lemma additionalVariants_key:
  "r \<in> set (additionalVariants bm vs) \<Longrightarrow> key r \<noteq> ''control'' \<and> key r \<noteq> ''variant''"
  by (auto simp add: additionalVariants_eq)

lemma filter_additional:
  "filter (\<lambda>v. key v \<noteq> ''control'') (additionalVariants bm vs) = additionalVariants bm vs"
  by (simp add: filter_id_conv additionalVariants_key)

lemma bestVariantOf_results [simp]:
  "bestVariantOf (variantResult bm ''control'' c # variantResult bm ''variant'' v # additionalVariants bm vs)
     = Inr (foldl better (variantResult bm ''variant'' v) (additionalVariants bm vs))"
  by (simp add: bestVariantOf_def filter_additional)

lemma tryResults_present:
  assumes "map_of vs ''control'' = Some c" "map_of vs ''variant'' = Some v"
  shows "tryResults bm vs =
     Inr (resultsFrom
            (variantResult bm ''control'' c # variantResult bm ''variant'' v # additionalVariants bm vs)
            (variantResult bm ''control'' c)
            (foldl better (variantResult bm ''variant'' v) (additionalVariants bm vs)))"
  using assms
  by (simp add: tryResults_def Let_def del: bestVariantOf_results)
     (simp add: bestVariantOf_def filter_additional)

lemma calculateResults_present:
  assumes "map_of vs ''control'' = Some c" "map_of vs ''variant'' = Some v"
    and "businessErrors bm = []" "variantErrors ''control'' c = []" "variantErrors ''variant'' v = []"
  shows "calculateResults bm vs =
         Inr (Some (resultsFrom
            (variantResult bm ''control'' c # variantResult bm ''variant'' v # additionalVariants bm vs)
            (variantResult bm ''control'' c)
            (foldl better (variantResult bm ''variant'' v) (additionalVariants bm vs))))"
  using assms(3-5)
  by (simp add: calculateResults_def validateInputs_present [OF assms(1,2)]
      tryResults_present [OF assms(1,2)])

text \<open>A validated input has the two default entries, and \<^verbatim>\<open>calculateResults\<close> returns a
  result for it: nothing throws in the \<^verbatim>\<open>try\<close> block.\<close>

lemma calculateResults_valid:
  assumes "validateInputs bm vs = Inr val" "isValid val"
  shows "\<exists>c v. map_of vs ''control'' = Some c \<and> map_of vs ''variant'' = Some v
     \<and> variantErrors ''control'' c = [] \<and> variantErrors ''variant'' v = []
     \<and> calculateResults bm vs =
         Inr (Some (resultsFrom
            (variantResult bm ''control'' c # variantResult bm ''variant'' v # additionalVariants bm vs)
            (variantResult bm ''control'' c)
            (foldl better (variantResult bm ''variant'' v) (additionalVariants bm vs))))"
proof -
  from validateInputs_InrD [OF assms(1)] obtain c v where
    cv: "map_of vs ''control'' = Some c" "map_of vs ''variant'' = Some v"
    and e: "errors val = businessErrors bm @ variantErrors ''control'' c @ variantErrors ''variant'' v"
      "isValid val = (errors val = [])"
    by blast
  from e assms(2) have ve: "businessErrors bm = []"
    "variantErrors ''control'' c = []" "variantErrors ''variant'' v = []"
    by simp_all
  from calculateResults_present [OF cv ve] cv ve(2,3) show ?thesis
    by blast
qed

subsection \<open>Comparisons of finite numbers\<close>

lemma zero_divide_number: "Fin 0 / y = NaN \<or> Fin 0 / y = Fin 0 \<or> Fin 0 / y = NegZero"
  by (cases y) (simp_all add: number_ops)

subsection \<open>The reduction that selects the best variant\<close>

lemma reduce_mem: "foldl better x xs \<in> set (x # xs)"
  by (induction xs rule: rev_induct) (auto simp add: better_def)

text \<open>On finite rates the reduction returns the first entry of maximal rate: the entries
  before it have a strictly smaller rate, the entries after it none greater.\<close>

lemma reduce_first_max:
  assumes "\<forall>y\<in>set (x # xs). isFinite (rate y)"
  shows "\<exists>pre post. x # xs = pre @ foldl better x xs # post
          \<and> (\<forall>y\<in>set pre. rate y < rate (foldl better x xs))
          \<and> (\<forall>y\<in>set post. rate y \<le> rate (foldl better x xs))"
  using assms
proof (induction xs rule: rev_induct)
  case Nil
  show ?case
    by (rule exI [of _ "[]"], rule exI [of _ "[]"]) simp
next
  case (snoc z zs)
  let ?b = "foldl better x zs"
  from snoc obtain pre post where
    d: "x # zs = pre @ ?b # post" and
    pre: "\<forall>y\<in>set pre. rate y < rate ?b" and
    post: "\<forall>y\<in>set post. rate y \<le> rate ?b"
    by auto
  have fin: "\<forall>y\<in>set (x # zs). isFinite (rate y)" "isFinite (rate z)"
    using snoc.prems by simp_all
  have "?b \<in> set (x # zs)"
    by (rule reduce_mem)
  with fin have fb: "isFinite (rate ?b)"
    by blast
  show ?case
  proof (cases "rate z > rate ?b")
    case True
    have "\<forall>y\<in>set (x # zs). rate y < rate z"
    proof
      fix y assume y: "y \<in> set (x # zs)"
      then have "y \<in> set pre \<or> y = ?b \<or> y \<in> set post"
        by (subst (asm) d) auto
      then have "rate y \<le> rate ?b"
        using pre post fb by (auto intro: number_less_imp_le number_le_refl)
      moreover have "isFinite (rate y)"
        using fin y by blast
      ultimately show "rate y < rate z"
        using True fb fin(2) by (simp add: less_val less_eq_val)
    qed
    moreover have "foldl better x (zs @ [z]) = z"
      using True by (simp add: better_def)
    ultimately show ?thesis
      by (intro exI [of _ "x # zs"] exI [of _ "[]"]) (simp del: foldl_append)
  next
    case False
    then have "rate z \<le> rate ?b"
      using fb fin(2) by (simp add: less_val less_eq_val)
    moreover have "x # zs @ [z] = pre @ ?b # (post @ [z])"
      using d by simp
    moreover have "foldl better x (zs @ [z]) = ?b"
      using False by (simp add: better_def)
    ultimately show ?thesis
      using pre post by (intro exI [of _ pre] exI [of _ "post @ [z]"]) (simp del: foldl_append)
  qed
qed

subsection \<open>Entries of finite inputs\<close>

lemma finiteInputs_D:
  "finiteInputs vs \<Longrightarrow> (k, v) \<in> set vs \<Longrightarrow> isFinite (TestVariant.visitors v) \<and> isFinite (conversions v)"
  by (auto simp add: finiteInputs_def list_all_iff)

text \<open>Finite visitors that are not \<open>\<le> 0\<close> are a positive real number; finite conversions that
  are not \<open>< 0\<close> are a zero of either sign or a positive real number.\<close>

lemma rate_finite:
  assumes "isFinite vis" "isFinite con" "\<not> vis \<le> 0" "\<not> con < 0" "\<not> con > vis"
  shows "isFinite (calculateConversionRate con vis)
     \<and> 0 \<le> calculateConversionRate con vis \<and> calculateConversionRate con vis \<le> 100
     \<and> 0 < vis"
proof -
  from assms(1,3) obtain v where v: "vis = Fin v" "0 < v"
    by (cases vis) (auto simp add: not_le)
  from assms(2,4) consider "con = NegZero" | c where "con = Fin c" "0 \<le> c"
    by (cases con) (auto simp add: not_less)
  then show ?thesis
  proof cases
    case 1
    with v show ?thesis
      by (simp add: calculateConversionRate_def)
  next
    case 2
    with v assms(5) show ?thesis
      by (simp add: calculateConversionRate_def divide_le_eq not_less)
  qed
qed

lemma variantResult_rate:
  assumes "isFinite (TestVariant.visitors v) \<and> isFinite (conversions v)" "variantErrors k v = []"
  shows "isFinite (rate (variantResult bm k' v))
     \<and> 0 \<le> rate (variantResult bm k' v) \<and> rate (variantResult bm k' v) \<le> 100
     \<and> 0 < VariantResult.visitors (variantResult bm k' v)"
  using assms rate_finite [of "TestVariant.visitors v" "conversions v"]
  by (simp add: variantErrors_Nil)

lemma additionalVariants_rate:
  assumes "finiteInputs vs" "x \<in> set (additionalVariants bm vs)"
  shows "isFinite (rate x) \<and> 0 \<le> rate x \<and> rate x \<le> 100 \<and> 0 < VariantResult.visitors x"
proof -
  from assms(2) obtain k v where kv: "(k, v) \<in> set vs" "x = variantResult bm k v"
    and ok: "\<not> (TestVariant.visitors v \<le> 0 \<or> conversions v < 0 \<or> conversions v > TestVariant.visitors v)"
    by (auto simp add: additionalVariants_eq)
  from finiteInputs_D [OF assms(1) kv(1)] ok kv(2) show ?thesis
    using rate_finite [of "TestVariant.visitors v" "conversions v"] by simp
qed

text \<open>A validated input with finite fields: the result, its entries, and the place of the
  best variant among the entries other than the control.\<close>

lemma valid_finite_results:
  assumes "validateInputs bm vs = Inr val" and "isValid val" and "finiteInputs vs"
  shows "\<exists>c v b pre post.
       key c = ''control'' \<and> key v = ''variant''
     \<and> b = foldl better v (additionalVariants bm vs)
     \<and> calculateResults bm vs = Inr (Some (resultsFrom (c # v # additionalVariants bm vs) c b))
     \<and> bestVariantOf (c # v # additionalVariants bm vs) = Inr b
     \<and> v # additionalVariants bm vs = pre @ b # post
     \<and> (\<forall>y\<in>set pre. rate y < rate b) \<and> (\<forall>y\<in>set post. rate y \<le> rate b)
     \<and> (\<forall>y\<in>set (c # v # additionalVariants bm vs).
           isFinite (rate y) \<and> 0 \<le> rate y \<and> rate y \<le> 100 \<and> 0 < VariantResult.visitors y)"
proof -
  from calculateResults_valid [OF assms(1,2)] obtain c v where
    cv: "map_of vs ''control'' = Some c" "map_of vs ''variant'' = Some v"
    and ve: "variantErrors ''control'' c = []" "variantErrors ''variant'' v = []"
    and res: "calculateResults bm vs =
         Inr (Some (resultsFrom
            (variantResult bm ''control'' c # variantResult bm ''variant'' v # additionalVariants bm vs)
            (variantResult bm ''control'' c)
            (foldl better (variantResult bm ''variant'' v) (additionalVariants bm vs))))"
    by blast
  let ?c = "variantResult bm ''control'' c"
  let ?v = "variantResult bm ''variant'' v"
  let ?b = "foldl better ?v (additionalVariants bm vs)"
  have "(''control'', c) \<in> set vs" "(''variant'', v) \<in> set vs"
    using cv by (auto dest: map_of_SomeD)
  then have fc: "isFinite (rate ?c) \<and> 0 \<le> rate ?c \<and> rate ?c \<le> 100 \<and> 0 < VariantResult.visitors ?c"
    and fv: "isFinite (rate ?v) \<and> 0 \<le> rate ?v \<and> rate ?v \<le> 100 \<and> 0 < VariantResult.visitors ?v"
    using variantResult_rate [OF finiteInputs_D [OF assms(3)] ve(1)]
      variantResult_rate [OF finiteInputs_D [OF assms(3)] ve(2)] by blast+
  have rates: "isFinite (rate y) \<and> 0 \<le> rate y \<and> rate y \<le> 100 \<and> 0 < VariantResult.visitors y"
    if "y \<in> set (?c # ?v # additionalVariants bm vs)" for y
    using that fc fv additionalVariants_rate [OF assms(3), of y bm] by auto
  then have "\<forall>y\<in>set (?v # additionalVariants bm vs). isFinite (rate y)"
    by (simp del: variantResult_sel)
  from reduce_first_max [OF this] obtain pre post where
    d: "?v # additionalVariants bm vs = pre @ ?b # post"
    and pre: "\<forall>y\<in>set pre. rate y < rate ?b" and post: "\<forall>y\<in>set post. rate y \<le> rate ?b"
    by blast
  have k: "key ?c = ''control''" "key ?v = ''variant''"
    by simp_all
  from rates have all: "\<forall>y\<in>set (?c # ?v # additionalVariants bm vs).
           isFinite (rate y) \<and> 0 \<le> rate y \<and> rate y \<le> 100 \<and> 0 < VariantResult.visitors y"
    by blast
  show ?thesis
    using k res d pre post all bestVariantOf_results [of bm c v vs]
    by (intro exI [of _ ?c] exI [of _ ?v] exI [of _ ?b] exI [of _ pre] exI [of _ post]
        conjI refl)
qed

text \<open>The entries of the result of a validated input with finite fields, which are what the
  callers of \<^verbatim>\<open>calculateConfidenceInterval\<close> pass to it: a rate between 0 and 100 and
  positive visitors.\<close>

lemma result_entries_in_range:
  assumes "validateInputs bm vs = Inr val" and "isValid val" and "finiteInputs vs"
  shows "\<exists>res. calculateResults bm vs = Inr (Some res)
     \<and> (\<forall>x\<in>set (variants res). 0 \<le> rate x \<and> rate x \<le> 100 \<and> 0 < VariantResult.visitors x)"
proof -
  from valid_finite_results [OF assms] obtain c v b where
    res: "calculateResults bm vs = Inr (Some (resultsFrom (c # v # additionalVariants bm vs) c b))"
    and all: "\<forall>y\<in>set (c # v # additionalVariants bm vs).
           isFinite (rate y) \<and> 0 \<le> rate y \<and> rate y \<le> 100 \<and> 0 < VariantResult.visitors y"
    by (elim exE conjE) blast
  from all have "\<forall>x\<in>set (variants (resultsFrom (c # v # additionalVariants bm vs) c b)).
      0 \<le> rate x \<and> rate x \<le> 100 \<and> 0 < VariantResult.visitors x"
    unfolding resultsFrom_sel by blast
  with res show ?thesis
    by (intro exI [of _ "resultsFrom (c # v # additionalVariants bm vs) c b"] conjI)
qed

section \<open>The inputs of the scenarios\<close>

lemmas fixture_defs =
  scenarioMetrics_def scenarioVariants_def pairVariants_def zeroControlVariants_def
  zeroVariants_def equalVariants_def

lemmas validation_defs = validateInputs_def businessErrors_def variantErrors_def

lemma valid_record: "isValid \<lparr>isValid = True, errors = []\<rparr>"
  by simp

lemma pair_valid:
  "validateInputs scenarioMetrics pairVariants = Inr \<lparr>isValid = True, errors = []\<rparr>"
  by (simp add: validation_defs fixture_defs)


lemma pair_distinct: "distinct (map fst pairVariants)"
  by (simp add: fixture_defs)

lemma scenario_finite: "finiteInputs scenarioVariants"
  by (simp add: finiteInputs_def fixture_defs)

lemma zeroControl_valid:
  "validateInputs scenarioMetrics zeroControlVariants = Inr \<lparr>isValid = True, errors = []\<rparr>"
  by (simp add: validation_defs fixture_defs)

lemma zero_valid:
  "validateInputs scenarioMetrics zeroVariants = Inr \<lparr>isValid = True, errors = []\<rparr>"
  by (simp add: validation_defs fixture_defs)

lemma equal_valid:
  "validateInputs scenarioMetrics equalVariants = Inr \<lparr>isValid = True, errors = []\<rparr>"
  by (simp add: validation_defs fixture_defs)

lemma scenario_results:
  "calculateResults scenarioMetrics scenarioVariants =
     Inr (Some (resultsFrom
       [variantResult scenarioMetrics ''control''
          \<lparr>TestVariant.name = ''Control'', TestVariant.visitors = 1000, conversions = 100\<rparr>,
        variantResult scenarioMetrics ''variant''
          \<lparr>TestVariant.name = ''Variant'', TestVariant.visitors = 1000, conversions = 150\<rparr>]
       (variantResult scenarioMetrics ''control''
          \<lparr>TestVariant.name = ''Control'', TestVariant.visitors = 1000, conversions = 100\<rparr>)
       (variantResult scenarioMetrics ''variant''
          \<lparr>TestVariant.name = ''Variant'', TestVariant.visitors = 1000, conversions = 150\<rparr>)))"
  by (subst calculateResults_present
        [where c = "\<lparr>TestVariant.name = ''Control'', TestVariant.visitors = 1000, conversions = 100\<rparr>"
           and v = "\<lparr>TestVariant.name = ''Variant'', TestVariant.visitors = 1000, conversions = 150\<rparr>"])
     (simp_all add: validation_defs fixture_defs additionalVariants_eq)

lemma zeroControl_results:
  "calculateResults scenarioMetrics zeroControlVariants =
     Inr (Some (resultsFrom
       [variantResult scenarioMetrics ''control''
          \<lparr>TestVariant.name = ''Control'', TestVariant.visitors = 1000, conversions = 0\<rparr>,
        variantResult scenarioMetrics ''variant''
          \<lparr>TestVariant.name = ''Variant'', TestVariant.visitors = 1000, conversions = 150\<rparr>]
       (variantResult scenarioMetrics ''control''
          \<lparr>TestVariant.name = ''Control'', TestVariant.visitors = 1000, conversions = 0\<rparr>)
       (variantResult scenarioMetrics ''variant''
          \<lparr>TestVariant.name = ''Variant'', TestVariant.visitors = 1000, conversions = 150\<rparr>)))"
  by (subst calculateResults_present
        [where c = "\<lparr>TestVariant.name = ''Control'', TestVariant.visitors = 1000, conversions = 0\<rparr>"
           and v = "\<lparr>TestVariant.name = ''Variant'', TestVariant.visitors = 1000, conversions = 150\<rparr>"])
     (simp_all add: validation_defs fixture_defs additionalVariants_eq)

lemma zero_results:
  "calculateResults scenarioMetrics zeroVariants =
     Inr (Some (resultsFrom
       [variantResult scenarioMetrics ''control''
          \<lparr>TestVariant.name = ''Control'', TestVariant.visitors = 1000, conversions = 0\<rparr>,
        variantResult scenarioMetrics ''variant''
          \<lparr>TestVariant.name = ''Variant'', TestVariant.visitors = 1000, conversions = 0\<rparr>]
       (variantResult scenarioMetrics ''control''
          \<lparr>TestVariant.name = ''Control'', TestVariant.visitors = 1000, conversions = 0\<rparr>)
       (variantResult scenarioMetrics ''variant''
          \<lparr>TestVariant.name = ''Variant'', TestVariant.visitors = 1000, conversions = 0\<rparr>)))"
  by (subst calculateResults_present
        [where c = "\<lparr>TestVariant.name = ''Control'', TestVariant.visitors = 1000, conversions = 0\<rparr>"
           and v = "\<lparr>TestVariant.name = ''Variant'', TestVariant.visitors = 1000, conversions = 0\<rparr>"])
     (simp_all add: validation_defs fixture_defs additionalVariants_eq)

lemma equal_results:
  "calculateResults scenarioMetrics equalVariants =
     Inr (Some (resultsFrom
       [variantResult scenarioMetrics ''control''
          \<lparr>TestVariant.name = ''Control'', TestVariant.visitors = 1000, conversions = 100\<rparr>,
        variantResult scenarioMetrics ''variant''
          \<lparr>TestVariant.name = ''Variant'', TestVariant.visitors = 2000, conversions = 200\<rparr>]
       (variantResult scenarioMetrics ''control''
          \<lparr>TestVariant.name = ''Control'', TestVariant.visitors = 1000, conversions = 100\<rparr>)
       (variantResult scenarioMetrics ''variant''
          \<lparr>TestVariant.name = ''Variant'', TestVariant.visitors = 2000, conversions = 200\<rparr>)))"
  by (subst calculateResults_present
        [where c = "\<lparr>TestVariant.name = ''Control'', TestVariant.visitors = 1000, conversions = 100\<rparr>"
           and v = "\<lparr>TestVariant.name = ''Variant'', TestVariant.visitors = 2000, conversions = 200\<rparr>"])
     (simp_all add: validation_defs fixture_defs additionalVariants_eq)

text \<open>The scenarios evaluated: the improvement of 50 percent, the winner and the monthly
  impact of the specification's scenario; after \<^verbatim>\<open>Add Test Pair\<close>, the entries of the result and
  the best variant of two variants with the same rate.\<close>

lemma scenario_outcome:
  "map_sum id (map_option winner) (calculateResults scenarioMetrics scenarioVariants)
     = Inr (Some ''Variant'')"
  "map_sum id (map_option improvement) (calculateResults scenarioMetrics scenarioVariants)
     = Inr (Some 50)"
  "map_sum id (map_option (monthly \<circ> revenueImpact)) (calculateResults scenarioMetrics scenarioVariants)
     = Inr (Some 100000)"
  unfolding scenario_results
  by (simp_all add: resultsFrom_def variantResult_def calculateConversionRate_def
      scenarioMetrics_def Let_def)

lemma pair_results:
  "calculateResults scenarioMetrics pairVariants =
     Inr (Some (resultsFrom
       [variantResult scenarioMetrics ''control''
          \<lparr>TestVariant.name = ''Control'', TestVariant.visitors = 1000, conversions = 100\<rparr>,
        variantResult scenarioMetrics ''variant''
          \<lparr>TestVariant.name = ''Variant'', TestVariant.visitors = 1000, conversions = 150\<rparr>,
        variantResult scenarioMetrics ''variant1''
          \<lparr>TestVariant.name = ''Variant 1'', TestVariant.visitors = 2000, conversions = 300\<rparr>]
       (variantResult scenarioMetrics ''control''
          \<lparr>TestVariant.name = ''Control'', TestVariant.visitors = 1000, conversions = 100\<rparr>)
       (variantResult scenarioMetrics ''variant''
          \<lparr>TestVariant.name = ''Variant'', TestVariant.visitors = 1000, conversions = 150\<rparr>)))"
  by (subst calculateResults_present
        [where c = "\<lparr>TestVariant.name = ''Control'', TestVariant.visitors = 1000, conversions = 100\<rparr>"
           and v = "\<lparr>TestVariant.name = ''Variant'', TestVariant.visitors = 1000, conversions = 150\<rparr>"])
     (simp_all add: validation_defs fixture_defs additionalVariants_def better_def
        calculateConversionRate_def)

lemma pair_outcome:
  "map_sum id (map_option (map key \<circ> variants)) (calculateResults scenarioMetrics pairVariants)
     = Inr (Some [''control'', ''variant'', ''variant1''])"
  "map_sum id (map_option (map rate \<circ> variants)) (calculateResults scenarioMetrics pairVariants)
     = Inr (Some [10, 15, 15])"
  "map_sum id (map_option (map_sum id key \<circ> bestVariantOf \<circ> variants))
       (calculateResults scenarioMetrics pairVariants)
     = Inr (Some (Inr ''variant''))"
  "map_sum id (map_option winner) (calculateResults scenarioMetrics pairVariants)
     = Inr (Some ''Variant'')"
  by (simp_all add: pair_results bestVariantOf_def better_def calculateConversionRate_def)

section \<open>Improvement\<close>

text \<open>The improvement as a function of the two rates, both finite and not negative. When
  the rate of the control is a zero the quotient is not finite, and its sign is the sign
  of that zero.\<close>

lemma improvement_formula:
  assumes "isFinite c" "isFinite b" "0 \<le> c" "0 \<le> b"
  shows "((b - c) / c) * 100 =
     (if isZero c
      then (if isZero b then NaN else if c = NegZero then NInf else PInf)
      else Fin (100 * (real_of b - real_of c) / real_of c))"
proof (cases c)
  case NegZero
  from assms(2,4) show ?thesis
    unfolding NegZero by (cases b) (auto simp add: number_ops)
next
  case c: (Fin rc)
  with assms(3) have rc: "0 \<le> rc"
    by simp
  show ?thesis
  proof (cases b)
    case NegZero
    with rc show ?thesis
      unfolding c by (simp add: number_ops)
  next
    case (Fin rb)
    with assms(4) have "0 \<le> rb"
      by simp
    with rc show ?thesis
      unfolding c Fin by (simp add: number_ops)
  qed (use assms(2) in simp_all)
qed (use assms(1) in simp_all)

text \<open>
  Claim C1, as the code has it. The result type has no flag for an undefined improvement
  and \<^verbatim>\<open>calculateResults\<close> does not test the rate of the control: for a validated input
  of finite fields it returns a result whose improvement, when the rate of the control is
  a zero, is \<^verbatim>\<open>NaN\<close> if the rate of the best variant is a zero too and otherwise
  \<^verbatim>\<open>Infinity\<close>, or \<^verbatim>\<open>-Infinity\<close> if the zero of the control is negative (conversions entered
  as \<^verbatim>\<open>-0\<close>); for any other rate of the control it is
  \<open>100 * (best rate - control rate) / control rate\<close>.
\<close>

theorem improvement_of_valid:
  assumes "validateInputs bm vs = Inr val" and "isValid val" and "finiteInputs vs"
  shows "\<exists>res controlResult best. calculateResults bm vs = Inr (Some res)
     \<and> find (\<lambda>v. key v = ''control'') (variants res) = Some controlResult
     \<and> bestVariantOf (variants res) = Inr best
     \<and> isFinite (rate controlResult) \<and> isFinite (rate best) \<and> 0 \<le> rate best
     \<and> improvement res =
         (if isZero (rate controlResult)
          then (if isZero (rate best) then NaN
                else if rate controlResult = NegZero then NInf else PInf)
          else Fin (100 * (real_of (rate best) - real_of (rate controlResult))
                      / real_of (rate controlResult)))"
proof -
  from valid_finite_results [OF assms] obtain c v b where
    k: "key c = ''control''"
    and b: "b = foldl better v (additionalVariants bm vs)"
    and res: "calculateResults bm vs = Inr (Some (resultsFrom (c # v # additionalVariants bm vs) c b))"
    and best: "bestVariantOf (c # v # additionalVariants bm vs) = Inr b"
    and all: "\<forall>y\<in>set (c # v # additionalVariants bm vs).
           isFinite (rate y) \<and> 0 \<le> rate y \<and> rate y \<le> 100 \<and> 0 < VariantResult.visitors y"
    by (elim exE conjE) blast
  have "b \<in> set (v # additionalVariants bm vs)"
    unfolding b by (rule reduce_mem)
  with all have rb: "isFinite (rate b)" "0 \<le> rate b"
    by auto
  from all have rc: "isFinite (rate c)" "0 \<le> rate c"
    by auto
  from improvement_formula [OF rc(1) rb(1) rc(2) rb(2)] k res best rb rc(1) show ?thesis
    by (intro exI [of _ "resultsFrom (c # v # additionalVariants bm vs) c b"] exI [of _ c]
        exI [of _ b]) simp
qed

theorem improvement_of_valid_witness:
  "validateInputs scenarioMetrics scenarioVariants = Inr \<lparr>isValid = True, errors = []\<rparr>
   \<and> finiteInputs scenarioVariants
   \<and> map_sum id (map_option improvement) (calculateResults scenarioMetrics scenarioVariants)
       = Inr (Some 50)"
proof -
  from improvement_of_valid [OF scenario_valid valid_record scenario_finite]
  obtain res controlResult best where
    res: "calculateResults scenarioMetrics scenarioVariants = Inr (Some res)"
    and c: "find (\<lambda>v. key v = ''control'') (variants res) = Some controlResult"
    and b: "bestVariantOf (variants res) = Inr best"
    and i: "improvement res =
         (if isZero (rate controlResult)
          then (if isZero (rate best) then NaN
                else if rate controlResult = NegZero then NInf else PInf)
          else Fin (100 * (real_of (rate best) - real_of (rate controlResult))
                      / real_of (rate controlResult)))"
    by (elim exE conjE) blast
  from res have v: "variants res =
       [variantResult scenarioMetrics ''control''
          \<lparr>TestVariant.name = ''Control'', TestVariant.visitors = 1000, conversions = 100\<rparr>,
        variantResult scenarioMetrics ''variant''
          \<lparr>TestVariant.name = ''Variant'', TestVariant.visitors = 1000, conversions = 150\<rparr>]"
    by (auto simp add: scenario_results)
  from c have "rate controlResult = Fin 10"
    unfolding v by (auto simp add: calculateConversionRate_def)
  moreover from b have "rate best = Fin 15"
    unfolding v by (auto simp add: bestVariantOf_def calculateConversionRate_def)
  ultimately have "improvement res = 50"
    using i by simp
  then show ?thesis
    using res scenario_valid scenario_finite by simp
qed

text \<open>
  Claim C1 as stated fails: a control with 0 conversions out of 1000 visitors passes
  validation, its rate is 0, and the result is returned with the improvement
  \<^verbatim>\<open>Infinity\<close>.
\<close>

theorem improvement_infinite_zero_control:
  "validateInputs scenarioMetrics zeroControlVariants = Inr \<lparr>isValid = True, errors = []\<rparr>
   \<and> map_sum id (map_option (map rate \<circ> variants)) (calculateResults scenarioMetrics zeroControlVariants)
       = Inr (Some [0, 15])
   \<and> map_sum id (map_option improvement) (calculateResults scenarioMetrics zeroControlVariants)
       = Inr (Some PInf)"
  by (simp add: zeroControl_valid zeroControl_results calculateConversionRate_def number_ops)

text \<open>With the conversions of the control entered as \<^verbatim>\<open>-0\<close>, which pass validation too, the
  rate of the control is \<^verbatim>\<open>-0\<close> and the improvement \<^verbatim>\<open>-Infinity\<close>.\<close>

lemma improvement_negative_zero_control:
  "validateInputs scenarioMetrics negZeroControlVariants = Inr \<lparr>isValid = True, errors = []\<rparr>
   \<and> map_sum id (map_option (map rate \<circ> variants)) (calculateResults scenarioMetrics negZeroControlVariants)
       = Inr (Some [NegZero, 15])
   \<and> map_sum id (map_option improvement) (calculateResults scenarioMetrics negZeroControlVariants)
       = Inr (Some NInf)"
proof -
  have v: "validateInputs scenarioMetrics negZeroControlVariants = Inr \<lparr>isValid = True, errors = []\<rparr>"
    by (simp add: validation_defs fixture_defs negZeroControlVariants_def)
  have "calculateResults scenarioMetrics negZeroControlVariants =
     Inr (Some (resultsFrom
       [variantResult scenarioMetrics ''control''
          \<lparr>TestVariant.name = ''Control'', TestVariant.visitors = 1000, conversions = NegZero\<rparr>,
        variantResult scenarioMetrics ''variant''
          \<lparr>TestVariant.name = ''Variant'', TestVariant.visitors = 1000, conversions = 150\<rparr>]
       (variantResult scenarioMetrics ''control''
          \<lparr>TestVariant.name = ''Control'', TestVariant.visitors = 1000, conversions = NegZero\<rparr>)
       (variantResult scenarioMetrics ''variant''
          \<lparr>TestVariant.name = ''Variant'', TestVariant.visitors = 1000, conversions = 150\<rparr>)))"
    by (subst calculateResults_present
        [where c = "\<lparr>TestVariant.name = ''Control'', TestVariant.visitors = 1000, conversions = NegZero\<rparr>"
           and v = "\<lparr>TestVariant.name = ''Variant'', TestVariant.visitors = 1000, conversions = 150\<rparr>"])
       (simp_all add: validation_defs fixture_defs negZeroControlVariants_def additionalVariants_eq)
  then show ?thesis
    using v by (simp add: calculateConversionRate_def number_ops)
qed

section \<open>Significance and risk level\<close>

lemma all_significant_iff:
  "list_all (\<lambda>s. s) (significantResults rs c) \<longleftrightarrow>
     (\<forall>x\<in>set rs. key x \<noteq> ''control'' \<longrightarrow> zScore x c > Fin 1.96)"
  by (auto simp add: significantResults_def list_all_iff)



text \<open>A rate that is a real number is not negative when the visitors are not \<open>\<le> 0\<close> and
  the conversions are not \<open>< 0\<close>.\<close>

lemma conversion_rate_Fin_nonneg:
  assumes "\<not> vis \<le> 0" "\<not> con < 0" "calculateConversionRate con vis = Fin r"
  shows "0 \<le> r"
proof -
  from assms(1) have v: "\<not> isZero vis" "\<not> negative vis"
    by (cases vis; simp add: number_ops)+
  from assms(2) have c: "isZero con \<or> \<not> negative con"
    by (cases con) (auto simp add: number_ops)
  from assms(3) v have "(con / vis) * 100 = Fin r"
    by (simp add: calculateConversionRate_def)
  with v c show ?thesis
    by (cases con; cases vis) (auto simp add: number_ops split: if_splits)
qed

lemma zScore_equal_rates:
  assumes "rate x = Fin r" "rate c = Fin r"
  shows "\<not> zScore x c > Fin 1.96"
  using zero_divide_number [of "Math_sqrt (Math_pow (error x) 2 + Math_pow (error c) 2)"] assms
  by (auto simp add: zScore_def number_ops)

lemma zScore_zero_rates:
  assumes "isZero (rate x)" "isZero (rate c)"
  shows "\<not> zScore x c > Fin 1.96"
proof -
  from assms have "\<bar>rate x - rate c\<bar> = Fin 0"
    by (cases "rate x"; cases "rate c") (simp_all add: number_ops)
  then show ?thesis
    using zero_divide_number [of "Math_sqrt (Math_pow (error x) 2 + Math_pow (error c) 2)"]
    by (auto simp add: zScore_def)
qed

lemma improvement_zero_rates:
  assumes "isZero b" "isZero c"
  shows "((b - c) / c) * 100 = NaN"
  using assms by (cases b; cases c) (simp_all add: number_ops)

text \<open>
  Claim C4, as the code has it. When all entries of the result of a validated input have
  the same finite rate \<open>r\<close>, no entry other than the control is significant and the risk
  level is \<^verbatim>\<open>high\<close>; the improvement is 0 when \<open>r\<close> is not 0, and \<^verbatim>\<open>NaN\<close> (0 divided by
  0) when \<open>r\<close> is 0. The same holds when all rates are zeros of either sign.
\<close>

theorem identical_rates:
  assumes "validateInputs bm vs = Inr val" and "isValid val"
  shows "\<exists>res controlResult. calculateResults bm vs = Inr (Some res)
     \<and> find (\<lambda>v. key v = ''control'') (variants res) = Some controlResult
     \<and> ((\<forall>x\<in>set (variants res). rate x = Fin r) \<longrightarrow>
          improvement res = (if r = 0 then NaN else 0)
          \<and> (\<forall>x\<in>set (variants res). key x \<noteq> ''control'' \<longrightarrow> \<not> zScore x controlResult > Fin 1.96)
          \<and> riskLevel res = high)
     \<and> ((\<forall>x\<in>set (variants res). isZero (rate x)) \<longrightarrow>
          improvement res = NaN
          \<and> (\<forall>x\<in>set (variants res). key x \<noteq> ''control'' \<longrightarrow> \<not> zScore x controlResult > Fin 1.96)
          \<and> riskLevel res = high)"
proof -
  from calculateResults_valid [OF assms] obtain c v where
    ve: "variantErrors ''control'' c = []"
    and res: "calculateResults bm vs =
         Inr (Some (resultsFrom
            (variantResult bm ''control'' c # variantResult bm ''variant'' v # additionalVariants bm vs)
            (variantResult bm ''control'' c)
            (foldl better (variantResult bm ''variant'' v) (additionalVariants bm vs))))"
    by blast
  let ?c = "variantResult bm ''control'' c"
  let ?v = "variantResult bm ''variant'' v"
  let ?rs = "?c # ?v # additionalVariants bm vs"
  let ?b = "foldl better ?v (additionalVariants bm vs)"
  have "improvement (resultsFrom ?rs ?c ?b) = (if r = 0 then NaN else 0)
          \<and> (\<forall>x\<in>set ?rs. key x \<noteq> ''control'' \<longrightarrow> \<not> zScore x ?c > Fin 1.96)
          \<and> riskLevel (resultsFrom ?rs ?c ?b) = high"
    if eq: "\<forall>x\<in>set ?rs. rate x = Fin r"
  proof -
    have "?b \<in> set ?rs"
      using reduce_mem [of ?v "additionalVariants bm vs"] by simp
    with eq have b: "rate ?b = Fin r"
      by blast
    from eq have c: "rate ?c = Fin r"
      by simp
    have z: "\<not> zScore x ?c > Fin 1.96" if "x \<in> set ?rs" for x
      using eq that c by (intro zScore_equal_rates [of x r]) blast+
    have "\<not> list_all (\<lambda>s. s) (significantResults ?rs ?c)"
      unfolding all_significant_iff using z [of ?v] by auto
    moreover from ve c have "0 \<le> r"
      by (intro conversion_rate_Fin_nonneg [of "TestVariant.visitors c" "conversions c"])
         (simp_all add: variantErrors_Nil)
    then have "((rate ?b - rate ?c) / rate ?c) * 100 = (if r = 0 then NaN else 0)"
      unfolding b c by (cases "r = 0") simp_all
    ultimately show ?thesis
      using z by (simp del: list.pred_inject set_simps variantResult_sel)
  qed
  moreover have "improvement (resultsFrom ?rs ?c ?b) = NaN
          \<and> (\<forall>x\<in>set ?rs. key x \<noteq> ''control'' \<longrightarrow> \<not> zScore x ?c > Fin 1.96)
          \<and> riskLevel (resultsFrom ?rs ?c ?b) = high"
    if zero: "\<forall>x\<in>set ?rs. isZero (rate x)"
  proof -
    have "?b \<in> set ?rs"
      using reduce_mem [of ?v "additionalVariants bm vs"] by simp
    with zero have b: "isZero (rate ?b)"
      by blast
    from zero have c: "isZero (rate ?c)"
      by simp
    have z: "\<not> zScore x ?c > Fin 1.96" if "x \<in> set ?rs" for x
      using zero that c by (intro zScore_zero_rates) blast+
    have "\<not> list_all (\<lambda>s. s) (significantResults ?rs ?c)"
      unfolding all_significant_iff using z [of ?v] by auto
    moreover have "((rate ?b - rate ?c) / rate ?c) * 100 = NaN"
      using b c by (rule improvement_zero_rates)
    ultimately show ?thesis
      using z by (simp del: list.pred_inject set_simps variantResult_sel)
  qed
  ultimately show ?thesis
    unfolding res
    by (intro exI [of _ "resultsFrom ?rs ?c ?b"] exI [of _ ?c])
       (simp del: list.pred_inject set_simps)
qed

theorem identical_rates_witness:
  "validateInputs scenarioMetrics equalVariants = Inr \<lparr>isValid = True, errors = []\<rparr>
   \<and> map_sum id (map_option (map rate \<circ> variants)) (calculateResults scenarioMetrics equalVariants)
       = Inr (Some [10, 10])
   \<and> map_sum id (map_option improvement) (calculateResults scenarioMetrics equalVariants)
       = Inr (Some 0)
   \<and> map_sum id (map_option riskLevel) (calculateResults scenarioMetrics equalVariants)
       = Inr (Some high)"
proof -
  from identical_rates [OF equal_valid valid_record, of 10]
  obtain res where
    res: "calculateResults scenarioMetrics equalVariants = Inr (Some res)"
    and i: "(\<forall>x\<in>set (variants res). rate x = Fin 10) \<longrightarrow>
          improvement res = (if (10::real) = 0 then NaN else 0) \<and> riskLevel res = high"
    by (elim exE conjE) blast
  from res have v: "variants res =
       [variantResult scenarioMetrics ''control''
          \<lparr>TestVariant.name = ''Control'', TestVariant.visitors = 1000, conversions = 100\<rparr>,
        variantResult scenarioMetrics ''variant''
          \<lparr>TestVariant.name = ''Variant'', TestVariant.visitors = 2000, conversions = 200\<rparr>]"
    by (auto simp add: equal_results)
  have "\<forall>x\<in>set (variants res). rate x = Fin 10"
    unfolding v by (simp add: calculateConversionRate_def)
  with i have "improvement res = 0" "riskLevel res = high"
    by simp_all
  then show ?thesis
    using res v equal_valid by (simp add: calculateConversionRate_def)
qed

text \<open>
  Claim C4 as stated fails: without any conversion both rates are 0, the input passes
  validation, and the improvement is \<^verbatim>\<open>NaN\<close>, not 0.
\<close>

theorem improvement_nan_zero_rates:
  "validateInputs scenarioMetrics zeroVariants = Inr \<lparr>isValid = True, errors = []\<rparr>
   \<and> map_sum id (map_option (map rate \<circ> variants)) (calculateResults scenarioMetrics zeroVariants)
       = Inr (Some [0, 0])
   \<and> map_sum id (map_option improvement) (calculateResults scenarioMetrics zeroVariants)
       = Inr (Some NaN)"
  by (simp add: zero_valid zero_results calculateConversionRate_def number_ops)

section \<open>Additional variants\<close>

lemma map_of_filter_keys:
  "k \<in> S \<Longrightarrow> map_of (filter (\<lambda>(k, x). k \<in> S) vs) k = map_of vs k"
  by (induction vs) auto

lemma forEachKey_filter:
  "set ks \<subseteq> S \<Longrightarrow> forEachKey (filter (\<lambda>(k, x). k \<in> S) vs) ks errs = forEachKey vs ks errs"
  by (induction ks arbitrary: errs) (simp_all add: map_of_filter_keys split: option.splits)

lemma validateInputs_filter:
  "validateInputs bm (filter (\<lambda>(k, x). k \<in> {''control'', ''variant''}) vs) = validateInputs bm vs"
  unfolding validateInputs_def
  by (subst forEachKey_filter) simp_all

text \<open>
  Claim C8. For a validated input (an object has each key once), the validation result
  is the one of the two default entries alone, so the additional entries add no error;
  \<^verbatim>\<open>calculateResults\<close> returns a result, and an additional entry with \<^verbatim>\<open>visitors <= 0\<close>,
  \<^verbatim>\<open>conversions < 0\<close> or \<^verbatim>\<open>conversions > visitors\<close> has no entry under its key in the variants
  of the result, while one with \<^verbatim>\<open>visitors > 0\<close> and \<^verbatim>\<open>0 <= conversions <= visitors\<close> has its
  entry there.
\<close>

theorem additional_variants_lazy:
  assumes "validateInputs bm vs = Inr val" and "isValid val" and "distinct (map fst vs)"
  shows "validateInputs bm (filter (\<lambda>(k, x). k \<in> {''control'', ''variant''}) vs) = Inr val
     \<and> (\<exists>res. calculateResults bm vs = Inr (Some res)
          \<and> (\<forall>(k, x)\<in>set vs. k \<notin> {''control'', ''variant''} \<longrightarrow>
               ((TestVariant.visitors x \<le> 0 \<or> conversions x < 0 \<or> conversions x > TestVariant.visitors x)
                  \<longrightarrow> k \<notin> key ` set (variants res))
             \<and> ((TestVariant.visitors x > 0 \<and> conversions x \<ge> 0 \<and> conversions x \<le> TestVariant.visitors x)
                  \<longrightarrow> variantResult bm k x \<in> set (variants res))))"
proof -
  from calculateResults_valid [OF assms(1,2)] obtain c v where
    res: "calculateResults bm vs =
         Inr (Some (resultsFrom
            (variantResult bm ''control'' c # variantResult bm ''variant'' v # additionalVariants bm vs)
            (variantResult bm ''control'' c)
            (foldl better (variantResult bm ''variant'' v) (additionalVariants bm vs))))"
    by blast
  let ?rs = "variantResult bm ''control'' c # variantResult bm ''variant'' v # additionalVariants bm vs"
  let ?res = "resultsFrom ?rs (variantResult bm ''control'' c)
            (foldl better (variantResult bm ''variant'' v) (additionalVariants bm vs))"
  have excl: "k \<notin> key ` set ?rs"
    if "(k, x) \<in> set vs" "k \<notin> {''control'', ''variant''}"
      "TestVariant.visitors x \<le> 0 \<or> conversions x < 0 \<or> conversions x > TestVariant.visitors x" for k x
  proof
    assume "k \<in> key ` set ?rs"
    with that(2) have "k \<in> key ` set (additionalVariants bm vs)"
      by auto
    then obtain y where y: "(k, y) \<in> set vs"
      "\<not> (TestVariant.visitors y \<le> 0 \<or> conversions y < 0 \<or> conversions y > TestVariant.visitors y)"
      by (auto simp add: additionalVariants_eq)
    from eq_key_imp_eq_value [OF assms(3) that(1) y(1)] y(2) that(3) show False
      by simp
  qed
  have incl: "variantResult bm k x \<in> set ?rs"
    if "(k, x) \<in> set vs" "k \<notin> {''control'', ''variant''}"
      "TestVariant.visitors x > 0 \<and> conversions x \<ge> 0 \<and> conversions x \<le> TestVariant.visitors x" for k x
  proof -
    from that(3) have "\<not> (TestVariant.visitors x \<le> 0 \<or> conversions x < 0 \<or> conversions x > TestVariant.visitors x)"
      by (auto dest: number_less_imp_not_le number_le_imp_not_less)
    with that(1,2) have "variantResult bm k x \<in> set (additionalVariants bm vs)"
      unfolding additionalVariants_eq by force
    then show ?thesis
      by simp
  qed
  have v: "variants ?res = ?rs"
    by simp
  have "\<forall>(k, x)\<in>set vs. k \<notin> {''control'', ''variant''} \<longrightarrow>
               ((TestVariant.visitors x \<le> 0 \<or> conversions x < 0 \<or> conversions x > TestVariant.visitors x)
                  \<longrightarrow> k \<notin> key ` set (variants ?res))
             \<and> ((TestVariant.visitors x > 0 \<and> conversions x \<ge> 0 \<and> conversions x \<le> TestVariant.visitors x)
                  \<longrightarrow> variantResult bm k x \<in> set (variants ?res))"
  proof (intro ballI)
    fix p assume p: "p \<in> set vs"
    obtain k x where kx: "p = (k, x)"
      by (cases p)
    show "case p of (k, x) \<Rightarrow> k \<notin> {''control'', ''variant''} \<longrightarrow>
               ((TestVariant.visitors x \<le> 0 \<or> conversions x < 0 \<or> conversions x > TestVariant.visitors x)
                  \<longrightarrow> k \<notin> key ` set (variants ?res))
             \<and> ((TestVariant.visitors x > 0 \<and> conversions x \<ge> 0 \<and> conversions x \<le> TestVariant.visitors x)
                  \<longrightarrow> variantResult bm k x \<in> set (variants ?res))"
      unfolding kx v prod.case
      using excl [of k x] incl [of k x] p [unfolded kx] by (intro impI conjI)
  qed
  with res have "\<exists>res. calculateResults bm vs = Inr (Some res)
          \<and> (\<forall>(k, x)\<in>set vs. k \<notin> {''control'', ''variant''} \<longrightarrow>
               ((TestVariant.visitors x \<le> 0 \<or> conversions x < 0 \<or> conversions x > TestVariant.visitors x)
                  \<longrightarrow> k \<notin> key ` set (variants res))
             \<and> ((TestVariant.visitors x > 0 \<and> conversions x \<ge> 0 \<and> conversions x \<le> TestVariant.visitors x)
                  \<longrightarrow> variantResult bm k x \<in> set (variants res)))"
    by (intro exI [of _ ?res] conjI)
  with assms(1) show ?thesis
    unfolding validateInputs_filter by (intro conjI)
qed

theorem additional_variants_lazy_witness:
  "validateInputs scenarioMetrics pairVariants = Inr \<lparr>isValid = True, errors = []\<rparr>
   \<and> distinct (map fst pairVariants)
   \<and> validateInputs scenarioMetrics (filter (\<lambda>(k, x). k \<in> {''control'', ''variant''}) pairVariants)
       = Inr \<lparr>isValid = True, errors = []\<rparr>
   \<and> (\<exists>res. calculateResults scenarioMetrics pairVariants = Inr (Some res)
          \<and> (\<forall>(k, x)\<in>set pairVariants. k \<notin> {''control'', ''variant''} \<longrightarrow>
               ((TestVariant.visitors x \<le> 0 \<or> conversions x < 0 \<or> conversions x > TestVariant.visitors x)
                  \<longrightarrow> k \<notin> key ` set (variants res))
             \<and> ((TestVariant.visitors x > 0 \<and> conversions x \<ge> 0 \<and> conversions x \<le> TestVariant.visitors x)
                  \<longrightarrow> variantResult scenarioMetrics k x \<in> set (variants res))))"
  using additional_variants_lazy [OF pair_valid valid_record pair_distinct] pair_valid pair_distinct
  by (intro conjI) blast+

section \<open>Best variant and winner\<close>





end
